theory Spec2Isabelle
  imports Complex_Main "HOL-Library.Multiset"
begin

section \<open>JavaScript numbers\<close>

text \<open>
  A JavaScript number is modelled as an exact real, or one of the three non-finite
  values. Rounding of IEEE doubles and the sign of zero are not modelled: every
  zero is \<open>+0\<close>.
\<close>

datatype jsnum = Fin real | PInf | NInf | NaN

fun js_neg :: "jsnum \<Rightarrow> jsnum" where
  "js_neg (Fin x) = Fin (- x)"
| "js_neg PInf = NInf"
| "js_neg NInf = PInf"
| "js_neg NaN = NaN"

fun js_add :: "jsnum \<Rightarrow> jsnum \<Rightarrow> jsnum" where
  "js_add (Fin x) (Fin y) = Fin (x + y)"
| "js_add NaN _ = NaN"
| "js_add _ NaN = NaN"
| "js_add PInf NInf = NaN"
| "js_add NInf PInf = NaN"
| "js_add PInf _ = PInf"
| "js_add _ PInf = PInf"
| "js_add NInf _ = NInf"
| "js_add _ NInf = NInf"

definition js_sub :: "jsnum \<Rightarrow> jsnum \<Rightarrow> jsnum" where
  "js_sub a b = js_add a (js_neg b)"

fun js_mul :: "jsnum \<Rightarrow> jsnum \<Rightarrow> jsnum" where
  "js_mul (Fin x) (Fin y) = Fin (x * y)"
| "js_mul NaN _ = NaN"
| "js_mul _ NaN = NaN"
| "js_mul (Fin x) PInf = (if x = 0 then NaN else if 0 < x then PInf else NInf)"
| "js_mul (Fin x) NInf = (if x = 0 then NaN else if 0 < x then NInf else PInf)"
| "js_mul PInf (Fin y) = (if y = 0 then NaN else if 0 < y then PInf else NInf)"
| "js_mul NInf (Fin y) = (if y = 0 then NaN else if 0 < y then NInf else PInf)"
| "js_mul PInf PInf = PInf"
| "js_mul NInf NInf = PInf"
| "js_mul PInf NInf = NInf"
| "js_mul NInf PInf = NInf"

fun js_div :: "jsnum \<Rightarrow> jsnum \<Rightarrow> jsnum" where
  "js_div (Fin x) (Fin y) =
     (if y \<noteq> 0 then Fin (x / y)
      else if x = 0 then NaN else if 0 < x then PInf else NInf)"
| "js_div NaN _ = NaN"
| "js_div _ NaN = NaN"
| "js_div (Fin x) PInf = Fin 0"
| "js_div (Fin x) NInf = Fin 0"
| "js_div PInf (Fin y) = (if 0 \<le> y then PInf else NInf)"
| "js_div NInf (Fin y) = (if 0 \<le> y then NInf else PInf)"
| "js_div PInf PInf = NaN"
| "js_div PInf NInf = NaN"
| "js_div NInf PInf = NaN"
| "js_div NInf NInf = NaN"

fun js_lt :: "jsnum \<Rightarrow> jsnum \<Rightarrow> bool" where
  "js_lt (Fin x) (Fin y) = (x < y)"
| "js_lt NaN _ = False"
| "js_lt _ NaN = False"
| "js_lt _ NInf = False"
| "js_lt PInf _ = False"
| "js_lt NInf _ = True"
| "js_lt _ PInf = True"

fun js_le :: "jsnum \<Rightarrow> jsnum \<Rightarrow> bool" where
  "js_le (Fin x) (Fin y) = (x \<le> y)"
| "js_le NaN _ = False"
| "js_le _ NaN = False"
| "js_le NInf _ = True"
| "js_le _ PInf = True"
| "js_le _ NInf = False"
| "js_le PInf _ = False"

definition js_gt :: "jsnum \<Rightarrow> jsnum \<Rightarrow> bool" where
  "js_gt a b = js_lt b a"

definition js_ge :: "jsnum \<Rightarrow> jsnum \<Rightarrow> bool" where
  "js_ge a b = js_le b a"

text \<open>\<open>Math.min\<close> of two numbers.\<close>

definition js_min :: "jsnum \<Rightarrow> jsnum \<Rightarrow> jsnum" where
  "js_min a b = (if a = NaN \<or> b = NaN then NaN else if js_lt b a then b else a)"

text \<open>\<open>Math.log\<close>.\<close>

fun js_log :: "jsnum \<Rightarrow> jsnum" where
  "js_log (Fin x) = (if 0 < x then Fin (ln x) else if x = 0 then NInf else NaN)"
| "js_log PInf = PInf"
| "js_log NInf = NaN"
| "js_log NaN = NaN"

text \<open>The absolute value of a base compared with one, for the infinite exponents of \<open>Math.pow\<close>.\<close>

fun js_abs_cmp1 :: "jsnum \<Rightarrow> jsnum" where
  "js_abs_cmp1 (Fin x) = Fin (\<bar>x\<bar> - 1)"
| "js_abs_cmp1 PInf = PInf"
| "js_abs_cmp1 NInf = PInf"
| "js_abs_cmp1 NaN = NaN"

text \<open>
  \<open>Math.pow\<close>. A negative finite base has a real power only at an integer exponent;
  an infinite exponent at a base of absolute value one gives \<open>NaN\<close> (JavaScript departs
  from IEEE 754 there).
\<close>

fun js_pow :: "jsnum \<Rightarrow> jsnum \<Rightarrow> jsnum" where
  "js_pow _ NaN = NaN"
| "js_pow b (Fin y) =
     (if y = 0 then Fin 1
      else case b of
        NaN \<Rightarrow> NaN
      | PInf \<Rightarrow> (if 0 < y then PInf else Fin 0)
      | NInf \<Rightarrow> (if 0 < y then (if y \<in> \<int> \<and> odd \<lfloor>y\<rfloor> then NInf else PInf) else Fin 0)
      | Fin x \<Rightarrow>
          (if 0 < x then Fin (x powr y)
           else if x = 0 then (if 0 < y then Fin 0 else PInf)
           else if y \<in> \<int> then Fin ((if odd \<lfloor>y\<rfloor> then - 1 else 1) * (\<bar>x\<bar> powr y))
           else NaN))"
| "js_pow b PInf =
     (case js_abs_cmp1 b of
        NaN \<Rightarrow> NaN
      | PInf \<Rightarrow> PInf
      | NInf \<Rightarrow> NaN
      | Fin d \<Rightarrow> (if 0 < d then PInf else if d = 0 then NaN else Fin 0))"
| "js_pow b NInf =
     (case js_abs_cmp1 b of
        NaN \<Rightarrow> NaN
      | PInf \<Rightarrow> Fin 0
      | NInf \<Rightarrow> NaN
      | Fin d \<Rightarrow> (if 0 < d then Fin 0 else if d = 0 then NaN else PInf))"

section \<open>JavaScript strings\<close>

text \<open>
  A string is a list of 8-bit characters, read as the code units U+0000 to U+00FF
  (Latin-1). Code units above U+00FF are outside the model.
\<close>

definition is_space :: "char \<Rightarrow> bool" where
  \<comment> \<open>the class \<open>\s\<close>, which is also what \<open>trim\<close> strips\<close>
  "is_space c = (of_char c \<in> {9, 10, 11, 12, 13, 32, 160 :: nat})"

definition toLowerCase_char :: "char \<Rightarrow> char" where
  "toLowerCase_char c =
     (let n = of_char c :: nat
      in if (65 \<le> n \<and> n \<le> 90) \<or> (192 \<le> n \<and> n \<le> 222 \<and> n \<noteq> 215)
         then char_of (n + 32) else c)"

definition toLowerCase :: "string \<Rightarrow> string" where
  "toLowerCase s = map toLowerCase_char s"

text \<open>
  \<open>s.split(/\s+/)\<close>: the pieces between maximal runs of whitespace. Leading or
  trailing whitespace leaves an empty piece, and the empty string gives one empty piece.
\<close>

function split_ws :: "string \<Rightarrow> string list" where
  "split_ws s =
     (let w = takeWhile (\<lambda>c. \<not> is_space c) s;
          r = dropWhile (\<lambda>c. \<not> is_space c) s
      in if r = [] then [w] else w # split_ws (dropWhile is_space r))"
  by pat_completeness auto
termination
proof (relation "measure length")
  fix s w r
  assume r: "r = dropWhile (\<lambda>c. \<not> is_space c) s" and ne: "r \<noteq> []"
  have "length (dropWhile is_space r) < length r"
  proof (cases r)
    case Nil
    with ne show ?thesis by simp
  next
    case (Cons c cs)
    have "\<not> \<not> is_space (hd r)"
      using r ne hd_dropWhile [of "\<lambda>c. \<not> is_space c" s] by simp
    then have "is_space c"
      using Cons by simp
    then show ?thesis
      using Cons length_dropWhile_le [of is_space cs] by simp
  qed
  moreover have "length r \<le> length s"
    using r by (simp add: length_dropWhile_le)
  ultimately show "(dropWhile is_space r, s) \<in> measure length"
    by simp
qed simp

declare split_ws.simps [simp del]

section \<open>Similarity\<close>

text \<open>
  \<open>computeSimilarity\<close>: \<open>new Set\<close> of an array is its set of elements; \<open>size\<close> is the
  number of distinct elements.
\<close>

definition computeSimilarity :: "string \<Rightarrow> string \<Rightarrow> jsnum" where
  "computeSimilarity text1 text2 =
     (let s1 = remdups (split_ws (toLowerCase text1));
          s2 = remdups (split_ws (toLowerCase text2));
          intersection = remdups (filter (\<lambda>x. x \<in> set s2) s1);
          union = remdups (s1 @ s2)
      in if length union = 0 then Fin 0
         else js_div (Fin (real (length intersection))) (Fin (real (length union))))"

section \<open>Sampler\<close>

text \<open>
  A frequency table is a plain object from candidate word to count. It is modelled by
  its own properties in the order of \<open>Object.keys\<close> (which is also the order of
  \<open>Object.values\<close>); the keys of an object are pairwise distinct.
\<close>

type_synonym freq_table = "(string \<times> nat) list"

type_synonym prob_entry = "string \<times> jsnum"

text \<open>\<open>xs.reduce((a, b) => a + b.prob, 0)\<close>.\<close>

definition sum_probs :: "prob_entry list \<Rightarrow> jsnum" where
  "sum_probs ps = foldl (\<lambda>a b. js_add a (snd b)) (Fin 0) ps"

definition table_total :: "freq_table \<Rightarrow> jsnum" where
  "table_total candidateFreq = foldl js_add (Fin 0) (map (\<lambda>(w, c). Fin (real c)) candidateFreq)"

text \<open>
  The candidate distribution of \<open>sampleWithTemperature\<close>: each count divided by the total
  and raised to \<open>1 / temperature\<close>, then divided by the sum of these powers.
\<close>

definition temperature_probs :: "freq_table \<Rightarrow> jsnum \<Rightarrow> prob_entry list" where
  "temperature_probs candidateFreq temperature =
     (let total = table_total candidateFreq;
          probs = map (\<lambda>(word, c).
                    (word, js_pow (js_div (Fin (real c)) total) (js_div (Fin 1) temperature)))
                    candidateFreq;
          probSum = sum_probs probs
      in map (\<lambda>(word, prob). (word, js_div prob probSum)) probs)"

text \<open>
  \<open>Array.prototype.sort\<close> with a comparator: a stable sort, in which a positive
  comparator result puts its first argument after the second and \<open>NaN\<close> counts as zero.
  Where the comparator is inconsistent (a \<open>NaN\<close> among numbers) ECMAScript leaves the
  order to the implementation; the model is then the order of an insertion sort.
\<close>

fun sort_insert :: "('a \<Rightarrow> 'a \<Rightarrow> jsnum) \<Rightarrow> 'a \<Rightarrow> 'a list \<Rightarrow> 'a list" where
  "sort_insert cmp x [] = [x]"
| "sort_insert cmp x (y # ys) =
     (if js_gt (cmp x y) (Fin 0) then y # sort_insert cmp x ys else x # y # ys)"

definition array_sort :: "('a \<Rightarrow> 'a \<Rightarrow> jsnum) \<Rightarrow> 'a list \<Rightarrow> 'a list" where
  "array_sort cmp xs = foldr (sort_insert cmp) xs []"

definition by_prob_desc :: "prob_entry \<Rightarrow> prob_entry \<Rightarrow> jsnum" where
  \<comment> \<open>\<open>(a, b) => b.prob - a.prob\<close>\<close>
  "by_prob_desc a b = js_sub (snd b) (snd a)"

definition sorted_probs :: "freq_table \<Rightarrow> jsnum \<Rightarrow> prob_entry list" where
  "sorted_probs candidateFreq temperature =
     array_sort by_prob_desc (temperature_probs candidateFreq temperature)"

text \<open>The nucleus loop: push, then stop once the running sum has reached \<open>topP\<close>.\<close>

fun nucleus_loop :: "jsnum \<Rightarrow> jsnum \<Rightarrow> prob_entry list \<Rightarrow> prob_entry list" where
  "nucleus_loop cumSum topP [] = []"
| "nucleus_loop cumSum topP (p # ps) =
     (if js_ge (js_add cumSum (snd p)) topP then [p]
      else p # nucleus_loop (js_add cumSum (snd p)) topP ps)"

definition nucleus_of :: "prob_entry list \<Rightarrow> jsnum \<Rightarrow> prob_entry list" where
  "nucleus_of probs topP = nucleus_loop (Fin 0) topP probs"

text \<open>The sampling loop over the nucleus; \<open>None\<close> when it falls through.\<close>

fun sample_loop :: "jsnum \<Rightarrow> jsnum \<Rightarrow> prob_entry list \<Rightarrow> string option" where
  "sample_loop rand running [] = None"
| "sample_loop rand running (p # ps) =
     (if js_le rand (js_add running (snd p)) then Some (fst p)
      else sample_loop rand (js_add running (snd p)) ps)"

text \<open>
  \<open>sampleWithTemperature\<close>. The value of \<open>Math.random()\<close> is the argument \<open>random\<close>;
  \<open>None\<close> is \<open>null\<close>. The nucleus of a non-empty candidate list is never empty, so
  \<open>nucleus[0]\<close> exists where the fallback is reached.
\<close>

definition sampleWithTemperature :: "freq_table \<Rightarrow> jsnum \<Rightarrow> jsnum \<Rightarrow> real \<Rightarrow> string option" where
  "sampleWithTemperature candidateFreq temperature topP random =
     (if length candidateFreq = 0 then None
      else
        let nucleus = nucleus_of (sorted_probs candidateFreq temperature) topP;
            rand = js_mul (Fin random) (sum_probs nucleus)
        in case sample_loop rand (Fin 0) nucleus of
             Some word \<Rightarrow> Some word
           | None \<Rightarrow> (case nucleus of p # _ \<Rightarrow> Some (fst p) | [] \<Rightarrow> None))"


section \<open>Text processing\<close>

definition is_lower_alpha :: "char \<Rightarrow> bool" where
  \<comment> \<open>the class \<open>[a-z]\<close>\<close>
  "is_lower_alpha c = (97 \<le> (of_char c :: nat) \<and> (of_char c :: nat) \<le> 122)"

definition is_digit :: "char \<Rightarrow> bool" where
  \<comment> \<open>the class \<open>[0-9]\<close>\<close>
  "is_digit c = (48 \<le> (of_char c :: nat) \<and> (of_char c :: nat) \<le> 57)"

definition is_word_char :: "char \<Rightarrow> bool" where
  \<comment> \<open>the class \<open>\w\<close>, which decides the word boundary \<open>\b\<close>\<close>
  "is_word_char c =
     (let n = of_char c :: nat
      in (48 \<le> n \<and> n \<le> 57) \<or> (65 \<le> n \<and> n \<le> 90) \<or> n = 95 \<or> (97 \<le> n \<and> n \<le> 122))"

definition is_punct :: "char \<Rightarrow> bool" where
  \<comment> \<open>the class \<open>[.,!?;:]\<close>\<close>
  "is_punct c = (c \<in> set ''.,!?;:'')"

definition trim :: "string \<Rightarrow> string" where
  "trim s = rev (dropWhile is_space (rev (dropWhile is_space s)))"

fun starts_with :: "string \<Rightarrow> string \<Rightarrow> bool" where
  "starts_with s [] = True"
| "starts_with [] (p # ps) = False"
| "starts_with (c # cs) (p # ps) = (c = p \<and> starts_with cs ps)"

text \<open>\<open>s.includes(sub)\<close>, and the test of a regular expression that is a plain string.\<close>

fun str_includes :: "string \<Rightarrow> string \<Rightarrow> bool" where
  "str_includes [] sub = (sub = [])"
| "str_includes (c # cs) sub = (starts_with (c # cs) sub \<or> str_includes cs sub)"

text \<open>
  \<open>s.split(sep)\<close> for a non-empty string \<open>sep\<close>. \<open>cur\<close> is the piece being read and
  \<open>skip\<close> counts the characters of a separator still to be passed over.
\<close>

fun split_str :: "string \<Rightarrow> string \<Rightarrow> nat \<Rightarrow> string \<Rightarrow> string list" where
  "split_str sep cur skip [] = [cur]"
| "split_str sep cur skip (c # cs) =
     (if 0 < skip then split_str sep cur (skip - 1) cs
      else if starts_with (c # cs) sep then cur # split_str sep [] (length sep - 1) cs
      else split_str sep (cur @ [c]) 0 cs)"

definition str_split :: "string \<Rightarrow> string \<Rightarrow> string list" where
  "str_split s sep = split_str sep [] 0 s"

text \<open>\<open>xs.join(sep)\<close> on an array of strings.\<close>

fun str_join :: "string list \<Rightarrow> string \<Rightarrow> string" where
  "str_join [] sep = []"
| "str_join [x] sep = x"
| "str_join (x # y # ys) sep = x @ sep @ str_join (y # ys) sep"

text \<open>
  \<open>tokenize\<close>: lower case, delete every character outside \<open>[a-z0-9\s]\<close>, split on
  whitespace, keep the pieces longer than two characters. The empty string is falsy.
\<close>

definition tokenize :: "string \<Rightarrow> string list" where
  "tokenize text =
     (if text = [] then []
      else filter (\<lambda>w. 2 < length w)
             (split_ws (filter (\<lambda>c. is_lower_alpha c \<or> is_digit c \<or> is_space c)
                (toLowerCase text))))"

text \<open>
  \<open>s.replace(/\bpat\b/g, rep)\<close> for a literal \<open>pat\<close> that starts and ends with a word
  character: \<open>pat\<close> is replaced where the character before it and the character after
  it are not word characters. \<open>prev_word\<close> tells whether the character before the
  current position is a word character; \<open>skip\<close> counts the characters of a match still
  to be passed over.
\<close>

fun replace_word :: "string \<Rightarrow> string \<Rightarrow> bool \<Rightarrow> nat \<Rightarrow> string \<Rightarrow> string" where
  "replace_word pat rep prev_word skip [] = []"
| "replace_word pat rep prev_word skip (c # cs) =
     (if 0 < skip then replace_word pat rep (is_word_char c) (skip - 1) cs
      else if \<not> prev_word \<and> starts_with (c # cs) pat
              \<and> (case drop (length pat) (c # cs) of [] \<Rightarrow> True | d # _ \<Rightarrow> \<not> is_word_char d)
      then rep @ replace_word pat rep (is_word_char c) (length pat - 1) cs
      else c # replace_word pat rep (is_word_char c) 0 cs)"

definition preprocessQuery :: "string \<Rightarrow> string" where
  "preprocessQuery query =
     (let cleaned = trim (toLowerCase query);
          cleaned = replace_word ''ai'' ''artificial intelligence'' False 0 cleaned;
          cleaned = replace_word (''what'' @ [CHR 0x27] @ ''s'') ''what is'' False 0 cleaned;
          cleaned = replace_word (''who'' @ [CHR 0x27] @ ''s'') ''who is'' False 0 cleaned;
          cleaned = replace_word (''how'' @ [CHR 0x27] @ ''s'') ''how is'' False 0 cleaned
      in cleaned)"

text \<open>
  The patterns of \<open>isMetaQuery\<close>, with each alternation written out. They are tested
  with the flag \<open>i\<close>; the patterns hold only ASCII letters and spaces, so a pattern matches
  where it occurs in the lower-cased query.
\<close>

definition metaPatterns :: "string list" where
  "metaPatterns =
     [''who are you'',
      ''what are you'', ''what is you'',
      ''your name'',
      ''what can you do'',
      ''what are your purpose'', ''what are your function'',
      ''what is your purpose'', ''what is your function'',
      ''how do you work'',
      ''tell me about yourself'',
      ''introduce yourself'',
      ''what are guahh'', ''what is guahh'']"

definition isMetaQuery :: "string \<Rightarrow> bool" where
  "isMetaQuery query = list_ex (\<lambda>p. str_includes (toLowerCase query) p) metaPatterns"

section \<open>Relevance scorer\<close>

text \<open>
  A corpus entry as \<open>init\<close> stores it: the fields \<open>q\<close>, \<open>a\<close> and \<open>tokens\<close> of the source.
\<close>

record entry =
  entry_q :: string
  entry_a :: string
  tokens :: "string list"

record scored =
  doc :: entry
  score :: jsnum

text \<open>
  The document-frequency table \<open>df\<close> is a plain object, so reading \<open>df[t]\<close> also finds the
  properties inherited from \<open>Object.prototype\<close>. For such a name the first increment
  \<open>(df[t] || 0) + 1\<close> concatenates a string, and the later division by it is \<open>NaN\<close>.
\<close>

definition object_prototype_names :: "string list" where
  "object_prototype_names =
     [''constructor'', ''hasOwnProperty'', ''isPrototypeOf'', ''propertyIsEnumerable'',
      ''toLocaleString'', ''toString'', ''valueOf'', ''__proto__'', ''__defineGetter__'',
      ''__defineSetter__'', ''__lookupGetter__'', ''__lookupSetter__'']"

definition doc_frequency :: "entry list \<Rightarrow> string \<Rightarrow> nat" where
  \<comment> \<open>the number of entries whose token set holds \<open>t\<close>\<close>
  "doc_frequency memory t = length (filter (\<lambda>e. t \<in> set (tokens e)) memory)"

definition df_or_one :: "entry list \<Rightarrow> string \<Rightarrow> jsnum" where
  \<comment> \<open>\<open>df[t] || 1\<close>, as a number\<close>
  "df_or_one memory t =
     (if t \<in> set object_prototype_names then NaN
      else if doc_frequency memory t = 0 then Fin 1
      else Fin (real (doc_frequency memory t)))"

definition token_idf :: "entry list \<Rightarrow> string \<Rightarrow> jsnum" where
  "token_idf memory t = js_log (js_div (Fin (real (length memory))) (df_or_one memory t))"

text \<open>The loop over the query tokens: the pair is \<open>(weightedScore, overlap)\<close>.\<close>

definition score_step :: "entry list \<Rightarrow> entry \<Rightarrow> jsnum \<times> nat \<Rightarrow> string \<Rightarrow> jsnum \<times> nat" where
  "score_step memory e acc t =
     (if t \<in> set (tokens e) then (js_add (fst acc) (token_idf memory t), snd acc + 1) else acc)"

definition score_entry :: "entry list \<Rightarrow> string list \<Rightarrow> entry \<Rightarrow> scored" where
  "score_entry memory qTokens e =
     (let acc = foldl (score_step memory e) (Fin 0, 0) qTokens;
          weightedScore = fst acc;
          overlap = snd acc;
          union = length (remdups (tokens e @ qTokens));
          baseScore = (if union = 0 then Fin 0
                       else js_div (Fin (real overlap)) (Fin (real union)));
          finalScore = js_mul baseScore (js_add (Fin 1) (js_div weightedScore (Fin 10)))
      in \<lparr>doc = e, score = js_min finalScore (Fin 1)\<rparr>)"

definition by_score_desc :: "scored \<Rightarrow> scored \<Rightarrow> jsnum" where
  \<comment> \<open>\<open>(a, b) => b.score - a.score\<close>\<close>
  "by_score_desc x y = js_sub (score y) (score x)"

definition retrieveRelevant :: "entry list \<Rightarrow> string list \<Rightarrow> scored list" where
  "retrieveRelevant memory qTokens =
     (if length qTokens = 0 then []
      else take 15 (array_sort by_score_desc
             (filter (\<lambda>s. js_gt (score s) (Fin 0.05))
               (map (score_entry memory qTokens) memory))))"

section \<open>N-gram model\<close>

text \<open>
  The own properties of an object are enumerated with the array indices first, in
  ascending numeric order, then the other string keys in the order of their creation.
  An array index is a canonical decimal numeral below \<open>2^32 - 1\<close>.
\<close>

definition index_value :: "string \<Rightarrow> int" where
  "index_value s = foldl (\<lambda>n c. 10 * n + (of_char c - 48)) 0 s"

definition is_array_index :: "string \<Rightarrow> bool" where
  "is_array_index s =
     (s \<noteq> [] \<and> list_all is_digit s \<and> (s = ''0'' \<or> hd s \<noteq> CHR ''0'')
      \<and> length s \<le> 10 \<and> index_value s < 4294967295)"

fun insert_index :: "string \<Rightarrow> nat \<Rightarrow> freq_table \<Rightarrow> freq_table" where
  "insert_index k v [] = [(k, v)]"
| "insert_index k v (e # es) =
     (if is_array_index (fst e) \<and> index_value (fst e) < index_value k
      then e # insert_index k v es else (k, v) # e # es)"

text \<open>\<open>tbl[w] = (tbl[w] || 0) + 1\<close> on a table of counts.\<close>

definition table_increment :: "freq_table \<Rightarrow> string \<Rightarrow> freq_table" where
  "table_increment tbl w =
     (case map_of tbl w of
        Some c \<Rightarrow> map (\<lambda>e. if fst e = w then (w, snd e + 1) else e) tbl
      | None \<Rightarrow> (if is_array_index w then insert_index w 1 tbl else tbl @ [(w, 1)]))"

text \<open>
  The objects \<open>bigrams\<close> and \<open>trigrams\<close> are only read by key, so the order of their
  keys does not matter. \<open>if (!tbls[k]) tbls[k] = {}; tbls[k][w] = (tbls[k][w] || 0) + 1\<close>:
\<close>

type_synonym ngram_tables = "(string \<times> freq_table) list"

definition tables_bump :: "ngram_tables \<Rightarrow> string \<Rightarrow> string \<Rightarrow> ngram_tables" where
  "tables_bump tbls k w =
     (case map_of tbls k of
        None \<Rightarrow> tbls @ [(k, table_increment [] w)]
      | Some tbl \<Rightarrow> map (\<lambda>e. if fst e = k then (k, table_increment (snd e) w) else e) tbls)"

record ngram_model =
  bigrams :: ngram_tables
  trigrams :: ngram_tables
  starters :: "string list"

text \<open>
  The loop \<open>for (i = 0; i < words.length - 2; i++)\<close>, as a recursion over the words
  from position \<open>i\<close> on. \<open>prev\<close> is \<open>words[i - 1]\<close>, absent exactly when \<open>i = 0\<close>.
\<close>

fun build_ngrams :: "string option \<Rightarrow> string list \<Rightarrow> ngram_model \<Rightarrow> ngram_model" where
  "build_ngrams prev (w1 # w2 # w3 # rest) m =
     build_ngrams (Some w1) (w2 # w3 # rest)
       \<lparr>bigrams = tables_bump (bigrams m) w1 w2,
        trigrams = tables_bump (trigrams m) (w1 @ '' '' @ w2) w3,
        starters = (if (case prev of None \<Rightarrow> True | Some p \<Rightarrow> str_includes ''.!?'' p)
                    then starters m @ [w1] else starters m)\<rparr>"
| "build_ngrams prev ws m = m"

text \<open>
  \<open>sourceText.replace(/([.,!?;:])/g, " $1 ").split(/\s+/).filter(w => w)\<close>.
\<close>

definition space_punct :: "string \<Rightarrow> string" where
  "space_punct s = concat (map (\<lambda>c. if is_punct c then [CHR '' '', c, CHR '' ''] else [c]) s)"

definition source_words :: "string \<Rightarrow> string list" where
  "source_words sourceText = filter (\<lambda>w. w \<noteq> []) (split_ws (space_punct sourceText))"

section \<open>Output validation\<close>

text \<open>\<open>validateOutput\<close> reads the recent-output window of the engine.\<close>

definition validateOutput :: "string list \<Rightarrow> string \<Rightarrow> bool" where
  "validateOutput recentOutputs text =
     (if length text < 10 then False
      else
        let words = split_ws (toLowerCase text);
            uniqueRatio = js_div (Fin (real (length (remdups words)))) (Fin (real (length words)))
        in if js_lt uniqueRatio (Fin 0.3) then False
           else \<not> list_ex (\<lambda>recent. js_gt (computeSimilarity text recent) (Fin 0.7)) recentOutputs)"

section \<open>Generator\<close>

text \<open>
  A value that may be \<open>undefined\<close> is an option. \<open>undefined\<close> is falsy, prints as the
  string \<open>undefined\<close> in a property key or a concatenation, and as the empty string in
  \<open>join\<close>.
\<close>

definition key_string :: "string option \<Rightarrow> string" where
  "key_string w = (case w of None \<Rightarrow> ''undefined'' | Some s \<Rightarrow> s)"

definition join_string :: "string option \<Rightarrow> string" where
  "join_string w = (case w of None \<Rightarrow> [] | Some s \<Rightarrow> s)"

definition truthy :: "string option \<Rightarrow> bool" where
  "truthy w = (case w of None \<Rightarrow> False | Some s \<Rightarrow> s \<noteq> [])"

text \<open>
  The generation loop \<open>for (i = 0; i < targetLength; i++)\<close>: \<open>n\<close> counts the iterations
  left and \<open>k\<close> the values of \<open>Math.random()\<close> drawn so far. The result is the output array
  and the number of draws.
\<close>

fun generate_loop ::
  "ngram_model \<Rightarrow> jsnum \<Rightarrow> jsnum \<Rightarrow> (nat \<Rightarrow> real) \<Rightarrow> nat \<Rightarrow> nat \<Rightarrow> string option \<Rightarrow> string option
     \<Rightarrow> string option list \<Rightarrow> nat \<Rightarrow> string option list \<times> nat" where
  "generate_loop m temp topp rnd 0 i prevWord currentWord output k = (output, k)"
| "generate_loop m temp topp rnd (Suc n) i prevWord currentWord output k =
     (let fromTrigram =
            (if truthy prevWord
             then map_of (trigrams m) (key_string prevWord @ '' '' @ key_string currentWord)
             else None);
          candidatePool =
            (case fromTrigram of
               Some tbl \<Rightarrow> Some tbl
             | None \<Rightarrow> map_of (bigrams m) (key_string currentWord))
      in case candidatePool of
           None \<Rightarrow> (output, k)
         | Some tbl \<Rightarrow>
             if length tbl = 0 then (output, k)
             else (case sampleWithTemperature tbl temp topp (rnd k) of
                     None \<Rightarrow> (output, k + 1)
                   | Some next \<Rightarrow>
                       if next = [] then (output, k + 1)
                       else if 15 < i \<and> str_includes ''.!?'' next
                       then (output @ [Some next], k + 1)
                       else generate_loop m temp topp rnd n (i + 1) currentWord (Some next)
                              (output @ [Some next]) (k + 1)))"

text \<open>
  \<open>text.replace(/\s+([.,!?;:])/g, "$1")\<close>: a run of whitespace directly before a
  punctuation mark is deleted. \<open>pending\<close> is the run of whitespace read and not yet
  written.
\<close>

fun fix_punctuation :: "string \<Rightarrow> string \<Rightarrow> string" where
  "fix_punctuation pending [] = pending"
| "fix_punctuation pending (c # cs) =
     (if is_space c then fix_punctuation (pending @ [c]) cs
      else if is_punct c then c # fix_punctuation [] cs
      else pending @ c # fix_punctuation [] cs)"

text \<open>\<open>text.replace(/^([a-z])/g, (c) => c.toUpperCase())\<close>.\<close>

definition capitalize :: "string \<Rightarrow> string" where
  "capitalize s =
     (case s of
        [] \<Rightarrow> []
      | c # cs \<Rightarrow> (if is_lower_alpha c then char_of ((of_char c :: nat) - 32) # cs else c # cs))"

text \<open>
  One pass of \<open>generateNeuralText\<close> up to the quality check: the text produced and the
  number of random draws used. \<open>starters[j]\<close> is \<open>undefined\<close> outside the array, and so
  is \<open>words[0]\<close> when there is no word.
\<close>

definition generate_attempt ::
  "jsnum \<Rightarrow> jsnum \<Rightarrow> (nat \<Rightarrow> real) \<Rightarrow> nat \<Rightarrow> string \<Rightarrow> nat \<Rightarrow> string \<times> nat" where
  "generate_attempt temp topp rnd k sourceText targetLength =
     (let words = source_words sourceText;
          m = build_ngrams None words \<lparr>bigrams = [], trigrams = [], starters = []\<rparr>;
          starters1 = (if length (starters m) = 0
                       then [case words of [] \<Rightarrow> None | w # _ \<Rightarrow> Some w]
                       else map Some (starters m));
          j = \<lfloor>rnd k * real (length starters1)\<rfloor>;
          currentWord = (if 0 \<le> j \<and> nat j < length starters1 then starters1 ! nat j else None);
          res = generate_loop m temp topp rnd targetLength 0 (Some []) currentWord
                  [currentWord] (k + 1);
          text = capitalize (fix_punctuation [] (str_join (map join_string (fst res)) '' ''))
      in (text, snd res))"

text \<open>
  What running the generator gives: a text, no return within the given number of
  attempts, or a context outside the model.
\<close>

datatype 'a outcome = Returned 'a | Exhausted | Unmodelled

text \<open>
  \<open>generateNeuralText\<close>. The source calls itself again whenever the quality check
  rejects the text; \<open>fuel\<close> bounds the number of passes, and \<open>Exhausted\<close> says that the
  source has not returned within them. The tables \<open>bigrams\<close>, \<open>trigrams\<close> and their
  members are plain objects: for a word that names a property of \<open>Object.prototype\<close>
  the source reads and writes the inherited built-in object instead of a table of counts,
  which the model does not cover (\<open>Unmodelled\<close>).
\<close>

fun generateNeuralText ::
  "nat \<Rightarrow> string list \<Rightarrow> jsnum \<Rightarrow> jsnum \<Rightarrow> (nat \<Rightarrow> real) \<Rightarrow> nat \<Rightarrow> string \<Rightarrow> nat \<Rightarrow> string outcome" where
  "generateNeuralText 0 recentOutputs temp topp rnd k sourceText targetLength =
     (if list_ex (\<lambda>w. w \<in> set object_prototype_names) (source_words sourceText) then Unmodelled
      else Exhausted)"
| "generateNeuralText (Suc fuel) recentOutputs temp topp rnd k sourceText targetLength =
     (if list_ex (\<lambda>w. w \<in> set object_prototype_names) (source_words sourceText) then Unmodelled
      else
        let att = generate_attempt temp topp rnd k sourceText targetLength
        in if \<not> validateOutput recentOutputs (fst att)
           then generateNeuralText fuel recentOutputs temp topp rnd (snd att) sourceText targetLength
           else Returned (fst att))"

section \<open>Engine state\<close>

text \<open>
  A \<open>Map\<close> keeps its entries in the order in which their keys were first set; it is an
  association list with distinct keys. \<open>set\<close> on a key already there changes the value
  in place; \<open>delete\<close> removes the entry.
\<close>

definition map_set :: "('k \<times> 'v) list \<Rightarrow> 'k \<Rightarrow> 'v \<Rightarrow> ('k \<times> 'v) list" where
  "map_set m k v =
     (if k \<in> set (map fst m) then map (\<lambda>e. if fst e = k then (k, v) else e) m
      else m @ [(k, v)])"

definition map_delete :: "('k \<times> 'v) list \<Rightarrow> 'k \<Rightarrow> ('k \<times> 'v) list" where
  "map_delete m k = filter (\<lambda>e. fst e \<noteq> k) m"

text \<open>
  \<open>const firstKey = m.keys().next().value; m.delete(firstKey)\<close>. The source does this
  only on a map that is not empty.
\<close>

definition map_delete_first :: "('k \<times> 'v) list \<Rightarrow> ('k \<times> 'v) list" where
  "map_delete_first m = (case m of [] \<Rightarrow> [] | e # _ \<Rightarrow> map_delete m (fst e))"

text \<open>
  The field \<open>sources\<close> of a result holds provenance tags or, for a generated answer,
  scores.
\<close>

datatype source = Tag string | ScoreOf jsnum

record result =
  res_text :: string
  res_sources :: "source list"

record history_entry =
  hist_query :: string
  hist_response :: string
  hist_timestamp :: nat

record dict_item =
  dict_word :: string
  dict_pos :: string
  dict_def :: string

text \<open>
  The dictionary is a plain object keyed by word. \<open>own_entries\<close> are its own properties.
  Assigning to the key \<open>__proto__\<close> does not create a property: it makes the assigned item
  the prototype of the dictionary (\<open>proto_item\<close>), whose fields are then found by a read
  of the dictionary.
\<close>

record dictionary_object =
  own_entries :: "(string \<times> dict_item) list"
  proto_item :: "dict_item option"

record engine =
  memory :: "entry list"
  dictionary :: dictionary_object
  isReady :: bool
  vocab :: "string list"
  temperature :: jsnum
  topP :: jsnum
  responseCache :: "(string \<times> result) list"
  recentOutputs :: "string list"
  conversationHistory :: "history_entry list"
  wikiCache :: "(string \<times> string) list"

text \<open>The engine as the object literal creates it.\<close>

definition initial_engine :: engine where
  "initial_engine =
     \<lparr>memory = [], dictionary = \<lparr>own_entries = [], proto_item = None\<rparr>, isReady = False,
      vocab = [], temperature = Fin 0.8, topP = Fin 0.9, responseCache = [],
      recentOutputs = [], conversationHistory = [], wikiCache = []\<rparr>"

section \<open>Loading the corpus\<close>

text \<open>
  An item of the load payload: a dictionary record (\<open>type\<close> is \<open>dict\<close>) or a
  question/answer record with the fields \<open>q\<close> and \<open>a\<close>.
\<close>

datatype payload_item = DictRecord dict_item | QARecord string string

definition dictionary_assign :: "dictionary_object \<Rightarrow> dict_item \<Rightarrow> dictionary_object" where
  \<comment> \<open>\<open>this.dictionary[item.word] = item\<close>\<close>
  "dictionary_assign d item =
     (if dict_word item = ''__proto__'' then d\<lparr>proto_item := Some item\<rparr>
      else d\<lparr>own_entries := map_set (own_entries d) (dict_word item) item\<rparr>)"

definition set_add :: "'a list \<Rightarrow> 'a \<Rightarrow> 'a list" where
  \<comment> \<open>\<open>Set.prototype.add\<close> on a set kept in insertion order\<close>
  "set_add s x = (if x \<in> set s then s else s @ [x])"

definition load_item :: "engine \<Rightarrow> payload_item \<Rightarrow> engine" where
  "load_item st item =
     (case item of
        DictRecord d \<Rightarrow> st\<lparr>dictionary := dictionary_assign (dictionary st) d\<rparr>
      | QARecord q a \<Rightarrow>
          st\<lparr>memory := memory st @ [\<lparr>entry_q = q, entry_a = a, tokens = tokenize q\<rparr>],
             vocab := foldl set_add (vocab st) (tokenize q)\<rparr>)"

text \<open>
  \<open>init\<close>: the payload is absent (\<open>None\<close>) or an array of items; every array, the empty
  one too, is truthy. The result is the returned boolean and the engine afterwards.
\<close>

definition init :: "payload_item list option \<Rightarrow> engine \<Rightarrow> bool \<times> engine" where
  "init data st =
     (case data of
        None \<Rightarrow> (False, st)
      | Some items \<Rightarrow>
          (True,
           (foldl load_item
              (st\<lparr>memory := [], dictionary := \<lparr>own_entries = [], proto_item = None\<rparr>, vocab := []\<rparr>)
              items)\<lparr>isReady := True\<rparr>))"

section \<open>History\<close>

definition addToHistory :: "nat \<Rightarrow> engine \<Rightarrow> string \<Rightarrow> string \<Rightarrow> engine" where
  "addToHistory now st query response =
     (let h = conversationHistory st
                @ [\<lparr>hist_query = query, hist_response = response, hist_timestamp = now\<rparr>];
          h = (if 10 < length h then tl h else h);
          r = recentOutputs st @ [response];
          r = (if 5 < length r then tl r else r)
      in st\<lparr>conversationHistory := h, recentOutputs := r\<rparr>)"

section \<open>Dictionary lookup\<close>

text \<open>
  What a read \<open>this.dictionary[k]\<close> finds: an item, or another truthy value (a field of
  the prototype item, or a built-in inherited from \<open>Object.prototype\<close>), whose fields
  \<open>word\<close>, \<open>pos\<close> and \<open>def\<close> are \<open>undefined\<close>. \<open>None\<close> is a falsy value or no property.
\<close>

datatype dict_value = Item dict_item | Other

definition dictionary_get :: "dictionary_object \<Rightarrow> string \<Rightarrow> dict_value option" where
  "dictionary_get d k =
     (case map_of (own_entries d) k of
        Some item \<Rightarrow> Some (Item item)
      | None \<Rightarrow>
          (case proto_item d of
             Some p \<Rightarrow>
               if k = ''__proto__'' then Some (Item p)
               else if k = ''type'' \<or> k = ''word'' then Some Other
               else if k = ''pos'' \<and> dict_pos p \<noteq> [] then Some Other
               else if k = ''def'' \<and> dict_def p \<noteq> [] then Some Other
               else if k \<in> set object_prototype_names then Some Other
               else None
           | None \<Rightarrow> if k \<in> set object_prototype_names then Some Other else None))"

definition format_entry :: "dict_value \<Rightarrow> string" where
  "format_entry v =
     (case v of
        Item e \<Rightarrow> ''**'' @ dict_word e @ ''** ('' @ dict_pos e @ ''): '' @ dict_def e
      | Other \<Rightarrow> ''**undefined** (undefined): undefined'')"

text \<open>
  \<open>checkDictionaryInquiry\<close>. \<open>split\<close> never returns an empty array, so the last part
  exists.
\<close>

definition checkDictionaryInquiry :: "dictionary_object \<Rightarrow> string \<Rightarrow> string option" where
  "checkDictionaryInquiry d query =
     (let clean = trim (filter (\<lambda>c. is_lower_alpha c \<or> is_space c) (toLowerCase query));
          parts = str_split clean '' '';
          lastWord = last parts;
          found = (case dictionary_get d clean of
                     Some v \<Rightarrow> Some v
                   | None \<Rightarrow> dictionary_get d lastWord)
      in map_option format_entry found)"

section \<open>External knowledge lookup\<close>

text \<open>
  \<open>query.replace(/^(what is|who is|tell me about|define|search for|meaning of)\s+/i, '')\<close>:
  the first alternative that is followed by whitespace is cut off together with that
  whitespace.
\<close>

definition question_prefixes :: "string list" where
  "question_prefixes =
     [''what is'', ''who is'', ''tell me about'', ''define'', ''search for'', ''meaning of'']"

fun strip_question_prefix :: "string list \<Rightarrow> string \<Rightarrow> string" where
  "strip_question_prefix [] query = query"
| "strip_question_prefix (p # ps) query =
     (if starts_with (toLowerCase query) p
         \<and> (case drop (length p) query of [] \<Rightarrow> False | c # _ \<Rightarrow> is_space c)
      then dropWhile is_space (drop (length p) query)
      else strip_question_prefix ps query)"

text \<open>
  \<open>searchWikipedia\<close>. The network is the argument \<open>fetch\<close>: from the cleaned query to
  the extract of the page found, \<open>None\<close> when the request or the parsing fails, or there
  is no page or no extract. The result is the summary (\<open>None\<close> is \<open>null\<close>) and the
  engine afterwards.
\<close>

definition searchWikipedia ::
  "(string \<Rightarrow> string option) \<Rightarrow> engine \<Rightarrow> string \<Rightarrow> string option \<times> engine" where
  "searchWikipedia fetch st query =
     (case map_of (wikiCache st) query of
        Some cached \<Rightarrow> (Some cached, st)
      | None \<Rightarrow>
          (case fetch (strip_question_prefix question_prefixes query) of
             None \<Rightarrow> (None, st)
           | Some extract \<Rightarrow>
               if extract = [] \<or> str_includes extract ''refer to:'' then (None, st)
               else
                 let sentences = str_split extract ''. '';
                     summary = str_join (take 3 sentences) ''. '' @ ''.'';
                     cache = map_set (wikiCache st) query summary;
                     cache = (if 50 < length cache then map_delete_first cache else cache)
                 in (Some summary, st\<lparr>wikiCache := cache\<rparr>)))"

section \<open>Answer pipeline\<close>

definition not_initialized_result :: result where
  "not_initialized_result = \<lparr>res_text = ''Neural core not initialized.'', res_sources = []\<rparr>"

definition no_match_result :: result where
  "no_match_result =
     \<lparr>res_text = ''I don'' @ [CHR 0x27] @ ''t have that information yet. ''
          @ ''Try rephrasing or asking about a different topic.'',
      res_sources = []\<rparr>"

definition low_confidence_result :: result where
  "low_confidence_result =
     \<lparr>res_text = ''I found some data, but it doesn'' @ [CHR 0x27]
          @ ''t seem relevant enough to answer confidently. Can you be more specific?'',
      res_sources = []\<rparr>"

definition core_identity_result :: result where
  "core_identity_result =
     \<lparr>res_text = ''I am Guahh AI V6, an advanced locally-running neural system. ''
          @ ''I use temperature sampling, nucleus sampling, and sophisticated retrieval ''
          @ ''to answer questions, generate creative text, search Wikipedia, ''
          @ ''and maintain natural conversations.'',
      res_sources = [Tag ''Core Identity'']\<rparr>"

definition long_form_words :: "string list" where
  \<comment> \<open>\<open>/write|story|essay|article|explain|detail|elaborate/\<close>\<close>
  "long_form_words =
     [''write'', ''story'', ''essay'', ''article'', ''explain'', ''detail'', ''elaborate'']"

text \<open>
  The end of \<open>generateResponse\<close> for a local answer: build the result, update the
  history and write the response cache, evicting its first key above 100 entries.
\<close>

definition finish_local ::
  "nat \<Rightarrow> engine \<Rightarrow> string \<Rightarrow> string \<Rightarrow> scored list \<Rightarrow> string \<Rightarrow> result \<times> engine" where
  "finish_local now st query cacheKey relevantDocs outputText =
     (let r = \<lparr>res_text = outputText,
                res_sources = map (\<lambda>d. ScoreOf (score d)) (take 3 relevantDocs)\<rparr>;
          st1 = addToHistory now st query (res_text r);
          cache = map_set (responseCache st1) cacheKey r;
          cache = (if 100 < length cache then map_delete_first cache else cache)
      in (r, st1\<lparr>responseCache := cache\<rparr>))"

text \<open>Steps 4 and 5 of \<open>generateResponse\<close>: the local corpus and the generator.\<close>

definition answer_locally ::
  "nat \<Rightarrow> (nat \<Rightarrow> real) \<Rightarrow> nat \<Rightarrow> engine \<Rightarrow> string \<Rightarrow> string \<Rightarrow> string \<Rightarrow> string list
     \<Rightarrow> (result \<times> engine) outcome" where
  "answer_locally fuel rnd now st query cacheKey cleanQuery qTokens =
     (let relevantDocs = retrieveRelevant (memory st) qTokens
      in case relevantDocs of
           [] \<Rightarrow> Returned (no_match_result, st)
         | best # _ \<Rightarrow>
             if js_lt (score best) (Fin 0.1) then Returned (no_match_result, st)
             else
               let isLongForm = list_ex (\<lambda>w. str_includes cleanQuery w) long_form_words;
                   maxLen = (if isLongForm then 150 else 50);
                   contextSize = (if isLongForm then 15 else 7);
                   bestScore = score best
               in if js_gt bestScore (Fin 0.85) \<and> \<not> isLongForm
                  then Returned (finish_local now st query cacheKey relevantDocs (entry_a (doc best)))
                  else if js_gt bestScore (Fin 0.15) \<or> isLongForm
                  then
                    (let validDocs = take contextSize relevantDocs;
                         contextText = str_join (map (\<lambda>d. entry_a (doc d)) validDocs) '' ''
                     in case generateNeuralText fuel (recentOutputs st) (temperature st) (topP st)
                               rnd 0 contextText maxLen of
                          Returned outputText \<Rightarrow>
                            Returned (finish_local now st query cacheKey relevantDocs
                              (if length outputText < 20 then entry_a (doc best) else outputText))
                        | Exhausted \<Rightarrow> Exhausted
                        | Unmodelled \<Rightarrow> Unmodelled)
                  else Returned (low_confidence_result, st))"

text \<open>Step 3 of \<open>generateResponse\<close>: the external lookup first, then the local corpus.\<close>

definition answer_from_sources ::
  "nat \<Rightarrow> (string \<Rightarrow> string option) \<Rightarrow> (nat \<Rightarrow> real) \<Rightarrow> nat \<Rightarrow> engine \<Rightarrow> string \<Rightarrow> string
     \<Rightarrow> string \<Rightarrow> string list \<Rightarrow> (result \<times> engine) outcome" where
  "answer_from_sources fuel fetch rnd now st query cacheKey cleanQuery qTokens =
     (let looked = searchWikipedia fetch st query;
          wikiResult = fst looked;
          st1 = snd looked
      in if truthy wikiResult
         then
           (let r = \<lparr>res_text = join_string wikiResult, res_sources = [Tag ''Wikipedia'']\<rparr>;
                st2 = addToHistory now st1 query (res_text r)
            in Returned (r, st2\<lparr>responseCache := map_set (responseCache st2) cacheKey r\<rparr>))
         else answer_locally fuel rnd now st1 query cacheKey cleanQuery qTokens)"

text \<open>
  \<open>generateResponse\<close>. Besides the engine and the query it takes what the source reads
  from outside: \<open>fetch\<close> for the network, \<open>rnd\<close> for the successive values of
  \<open>Math.random()\<close> and \<open>now\<close> for \<open>Date.now()\<close>; \<open>fuel\<close> bounds the passes of the
  generator. Calls to the log sink are left out.
\<close>

definition generateResponse ::
  "nat \<Rightarrow> (string \<Rightarrow> string option) \<Rightarrow> (nat \<Rightarrow> real) \<Rightarrow> nat \<Rightarrow> engine \<Rightarrow> string
     \<Rightarrow> (result \<times> engine) outcome" where
  "generateResponse fuel fetch rnd now st query =
     (if \<not> isReady st then Returned (not_initialized_result, st)
      else
        let cacheKey = trim (toLowerCase query)
        in case map_of (responseCache st) cacheKey of
             Some cached \<Rightarrow> Returned (cached, st)
           | None \<Rightarrow>
               let cleanQuery = preprocessQuery query;
                   qTokens = tokenize cleanQuery
               in if isMetaQuery query
                  then
                    (let relevantDocs = retrieveRelevant (memory st) qTokens;
                         r = (case relevantDocs of
                                [] \<Rightarrow> core_identity_result
                              | best # _ \<Rightarrow>
                                  if js_gt (score best) (Fin 0.5)
                                  then \<lparr>res_text = entry_a (doc best),
                                        res_sources = [Tag ''Local Memory'']\<rparr>
                                  else core_identity_result)
                     in Returned (r, addToHistory now st query (res_text r)))
                  else
                    (let dictResult = checkDictionaryInquiry (dictionary st) query
                     in if truthy dictResult
                        then
                          (let r = \<lparr>res_text = join_string dictResult,
                                     res_sources = [Tag ''Dictionary'']\<rparr>
                           in Returned (r, addToHistory now st query (res_text r)))
                        else answer_from_sources fuel fetch rnd now st query cacheKey
                               cleanQuery qTokens))"

section \<open>Sessions and example inputs\<close>

text \<open>A session: the queries are answered one after the other, each on the engine the
  previous answer left.\<close>

fun ask_all ::
  "nat \<Rightarrow> (string \<Rightarrow> string option) \<Rightarrow> (nat \<Rightarrow> real) \<Rightarrow> nat \<Rightarrow> engine \<Rightarrow> string list
     \<Rightarrow> engine outcome" where
  "ask_all fuel fetch rnd now st [] = Returned st"
| "ask_all fuel fetch rnd now st (q # qs) =
     (case generateResponse fuel fetch rnd now st q of
        Returned res \<Rightarrow> ask_all fuel fetch rnd now (snd res) qs
      | Exhausted \<Rightarrow> Exhausted
      | Unmodelled \<Rightarrow> Unmodelled)"

definition cache_size :: "engine outcome \<Rightarrow> nat" where
  "cache_size out = (case out of Returned st \<Rightarrow> length (responseCache st) | _ \<Rightarrow> 0)"

text \<open>A network that always fails, one that always finds the same extract, and a random
  source that always draws 0.\<close>

definition no_fetch :: "string \<Rightarrow> string option" where
  "no_fetch q = None"

definition known_fetch :: "string \<Rightarrow> string option" where
  "known_fetch q = Some ''It is known''"

definition zero_draws :: "nat \<Rightarrow> real" where
  "zero_draws k = 0"

text \<open>101 distinct queries: \<open>a0\<close>, \<open>a1\<close>, and so on up to \<open>k0\<close>.\<close>

definition many_queries :: "string list" where
  "many_queries =
     take 101 (concat (map (\<lambda>a. map (\<lambda>b. [a, b]) ''0123456789'') ''abcdefghijk''))"

text \<open>The engine after \<open>init\<close> on the empty payload, and after \<open>init\<close> on one
  question/answer record.\<close>

definition empty_ready_engine :: engine where
  "empty_ready_engine = initial_engine\<lparr>isReady := True\<rparr>"

definition greek_entry :: entry where
  "greek_entry =
     \<lparr>entry_q = ''alpha beta gamma delta epsilon zeta theta kappa'',
      entry_a = ''Greek letters.'',
      tokens = [''alpha'', ''beta'', ''gamma'', ''delta'', ''epsilon'', ''zeta'', ''theta'',
                ''kappa'']\<rparr>"

definition greek_engine :: engine where
  "greek_engine =
     initial_engine\<lparr>memory := [greek_entry], vocab := tokens greek_entry, isReady := True\<rparr>"

definition rust_entry :: entry where
  "rust_entry =
     \<lparr>entry_q = ''what is rust'', entry_a = ''Rust is a language.'',
      tokens = [''what'', ''rust'']\<rparr>"

subsection \<open>Auxiliary notions for the session's properties\<close>

text \<open>A query that is its own cache key, is no meta query and finds nothing in an
  empty dictionary; and a knowledge cache all of whose summaries are truthy.\<close>

definition plain_query :: "string \<Rightarrow> bool" where
  "plain_query q =
     (\<not> isMetaQuery q \<and> trim (toLowerCase q) = q
      \<and> \<not> truthy (checkDictionaryInquiry \<lparr>own_entries = [], proto_item = None\<rparr> q))"

definition truthy_values :: "(string \<times> string) list \<Rightarrow> bool" where
  "truthy_values m = list_all (\<lambda>e. snd e \<noteq> []) m"

subsection \<open>Auxiliary notions for the sampler's properties\<close>



section \<open>Verified properties\<close>

subsection \<open>Similarity\<close>

lemma split_ws_empty: "split_ws [] = [[]]"
  by (simp add: split_ws.simps)

lemma split_ws_nonempty: "split_ws s \<noteq> []"
  by (subst split_ws.simps) (simp add: Let_def)

lemma computeSimilarity_self: "computeSimilarity x x = Fin 1"
proof -
  have "remdups (split_ws (toLowerCase x)) \<noteq> []"
    using split_ws_nonempty by simp
  then show ?thesis
    by (simp add: computeSimilarity_def Let_def filter_id_conv length_remdups_card_conv)
qed

lemma computeSimilarity_disjoint:
  assumes "set (split_ws (toLowerCase x)) \<inter> set (split_ws (toLowerCase y)) = {}"
  shows "computeSimilarity x y = Fin 0"
proof -
  have "filter (\<lambda>w. w \<in> set (split_ws (toLowerCase y))) (remdups (split_ws (toLowerCase x))) = []"
    using assms by (auto simp: filter_empty_conv)
  moreover have "remdups (split_ws (toLowerCase x)) \<noteq> []"
    using split_ws_nonempty by simp
  ultimately show ?thesis
    by (simp add: computeSimilarity_def Let_def)
qed

text \<open>
  C7. The similarity of two empty strings: splitting the empty string gives one empty
  piece, so both word sets are the singleton of the empty string and the result is 1.
\<close>

theorem computeSimilarity_empty_is_one: "computeSimilarity [] [] = Fin 1"
  by (simp add: computeSimilarity_def toLowerCase_def split_ws_empty)

subsection \<open>The sampler's distribution and nucleus\<close>











lemma mset_sort_insert: "mset (sort_insert cmp x ys) = add_mset x (mset ys)"
  by (induction ys) simp_all

lemma mset_array_sort: "mset (array_sort cmp xs) = mset xs"
  unfolding array_sort_def by (induction xs) (simp_all add: mset_sort_insert)

lemma set_array_sort: "set (array_sort cmp xs) = set xs"
  using mset_array_sort [of cmp xs] by (metis set_mset_mset)


lemma sorted_sort_insert_key:
  assumes fin: "\<forall>z\<in>set (x # ys). \<exists>r. key z = Fin r"
    and srt: "sorted_wrt (\<lambda>a b. js_ge (key a) (key b)) ys"
  shows "sorted_wrt (\<lambda>a b. js_ge (key a) (key b))
           (sort_insert (\<lambda>a b. js_sub (key b) (key a)) x ys)"
  using assms
proof (induction ys)
  case Nil
  then show ?case by simp
next
  case (Cons y ys)
  let ?cmp = "\<lambda>a b. js_sub (key b) (key a)"
  obtain rx ry where r: "key x = Fin rx" "key y = Fin ry"
    using Cons.prems(1) by auto
  show ?case
  proof (cases "js_gt (?cmp x y) (Fin 0)")
    case True
    have "sorted_wrt (\<lambda>a b. js_ge (key a) (key b)) (sort_insert ?cmp x ys)"
      using Cons.IH Cons.prems by simp
    moreover have "\<forall>z\<in>set (sort_insert ?cmp x ys). js_ge (key y) (key z)"
    proof
      fix z assume "z \<in> set (sort_insert ?cmp x ys)"
      then have "z = x \<or> z \<in> set ys"
        using mset_sort_insert [of ?cmp x ys]
        by (metis insert_iff set_mset_add_mset_insert set_mset_mset)
      then show "js_ge (key y) (key z)"
        using True Cons.prems(2) r by (auto simp: js_gt_def js_ge_def js_sub_def)
    qed
    ultimately show ?thesis
      using True by simp
  next
    case False
    then have xy: "ry \<le> rx"
      using r by (simp add: js_gt_def js_sub_def)
    have "\<forall>z\<in>set ys. js_ge (key x) (key z)"
    proof
      fix z assume z: "z \<in> set ys"
      then obtain rz where rz: "key z = Fin rz"
        using Cons.prems(1) by auto
      have "js_ge (key y) (key z)"
        using Cons.prems(2) z by simp
      then show "js_ge (key x) (key z)"
        using xy r rz by (simp add: js_ge_def)
    qed
    then show ?thesis
      using False Cons.prems(2) xy r by (simp add: js_ge_def)
  qed
qed

lemma sorted_array_sort_key:
  "\<forall>z\<in>set xs. \<exists>r. key z = Fin r \<Longrightarrow>
   sorted_wrt (\<lambda>a b. js_ge (key a) (key b)) (array_sort (\<lambda>a b. js_sub (key b) (key a)) xs)"
proof (induction xs)
  case Nil
  then show ?case by (simp add: array_sort_def)
next
  case (Cons x xs)
  let ?cmp = "\<lambda>a b. js_sub (key b) (key a)"
  have "\<forall>z\<in>set (x # array_sort ?cmp xs). \<exists>r. key z = Fin r"
    using Cons.prems by (simp add: set_array_sort)
  moreover have "sorted_wrt (\<lambda>a b. js_ge (key a) (key b)) (array_sort ?cmp xs)"
    using Cons by simp
  ultimately have "sorted_wrt (\<lambda>a b. js_ge (key a) (key b)) (sort_insert ?cmp x (array_sort ?cmp xs))"
    by (rule sorted_sort_insert_key)
  then show ?case
    by (simp add: array_sort_def)
qed




















subsection \<open>The sampler's edge cases\<close>

text \<open>
  C9. \<open>sampleWithTemperature\<close> returns \<open>null\<close> for an empty frequency table, and for a
  table with a single candidate it returns that candidate, whatever the temperature,
  \<open>topP\<close> and the random draw are (non-finite values included).
\<close>

theorem sampleWithTemperature_edge_cases:
  "sampleWithTemperature [] temp threshold draw = None \<and>
   sampleWithTemperature [(word, c)] temp threshold draw = Some word"
  by (simp add: sampleWithTemperature_def nucleus_of_def sorted_probs_def
      temperature_probs_def array_sort_def Let_def split: option.split)

subsection \<open>Relevance scorer\<close>

lemma js_min_one_bounds:
  "js_gt (js_min x (Fin 1)) (Fin c) \<Longrightarrow> \<exists>v. js_min x (Fin 1) = Fin v \<and> c < v \<and> v \<le> 1"
  by (cases x) (auto simp: js_min_def js_gt_def split: if_splits)

lemma score_step_no_overlap:
  "set (tokens e) \<inter> set qs = {} \<Longrightarrow> foldl (score_step corpus e) acc qs = acc"
  by (induction qs arbitrary: acc) (auto simp: score_step_def)

lemma score_entry_no_overlap:
  "set (tokens e) \<inter> set qTokens = {} \<Longrightarrow> score (score_entry corpus qTokens e) = Fin 0"
  by (simp add: score_entry_def score_step_no_overlap Let_def js_min_def)

text \<open>
  C5. The list returned by \<open>retrieveRelevant\<close> is sorted by descending score, has at
  most 15 elements, and each element is the scored form of a corpus entry whose score is
  a finite number above 0.05 and within [0, 1]; an entry that shares no token with the
  query is scored 0.
\<close>

theorem retrieveRelevant_sorted_bounded:
  "sorted_wrt (\<lambda>x y. js_ge (score x) (score y)) (retrieveRelevant corpus qTokens) \<and>
   (\<forall>s\<in>set (retrieveRelevant corpus qTokens).
      doc s \<in> set corpus \<and> s = score_entry corpus qTokens (doc s) \<and>
      (\<exists>v. score s = Fin v \<and> 0.05 < v \<and> 0 \<le> v \<and> v \<le> 1)) \<and>
   length (retrieveRelevant corpus qTokens) \<le> 15 \<and>
   (\<forall>e. set (tokens e) \<inter> set qTokens = {} \<longrightarrow> score (score_entry corpus qTokens e) = Fin 0)"
proof -
  let ?kept = "filter (\<lambda>s. js_gt (score s) (Fin 0.05)) (map (score_entry corpus qTokens) corpus)"
  have kept: "doc s \<in> set corpus \<and> s = score_entry corpus qTokens (doc s) \<and>
      (\<exists>v. score s = Fin v \<and> 0.05 < v \<and> 0 \<le> v \<and> v \<le> 1)" if "s \<in> set ?kept" for s
  proof -
    have gt: "js_gt (score s) (Fin 0.05)"
      using that by simp
    have "s \<in> score_entry corpus qTokens ` set corpus"
      using that by simp
    then obtain e where e: "e \<in> set corpus" "s = score_entry corpus qTokens e"
      by blast
    have d: "doc s = e"
      using e(2) by (simp add: score_entry_def Let_def)
    have "score s = js_min (score s) (Fin 1)"
      using e(2) by (cases "score s") (auto simp: score_entry_def Let_def js_min_def split: if_splits)
    then obtain v where "score s = Fin v" "0.05 < v" "v \<le> 1"
      using js_min_one_bounds [of "score s" "0.05"] gt by auto
    then show ?thesis
      using e d by auto
  qed
  have fin: "\<forall>z\<in>set ?kept. \<exists>r. score z = Fin r"
    using kept by blast
  have srt: "sorted_wrt (\<lambda>x y. js_ge (score x) (score y)) (array_sort by_score_desc ?kept)"
    using sorted_array_sort_key [OF fin] by (simp add: by_score_desc_def [abs_def])
  have a: "sorted_wrt (\<lambda>x y. js_ge (score x) (score y)) (retrieveRelevant corpus qTokens)"
    unfolding retrieveRelevant_def using srt by simp
  have "set (retrieveRelevant corpus qTokens) \<subseteq> set ?kept"
    unfolding retrieveRelevant_def using set_take_subset [of 15 "array_sort by_score_desc ?kept"]
    by (auto simp: set_array_sort)
  then have b: "\<forall>s\<in>set (retrieveRelevant corpus qTokens).
      doc s \<in> set corpus \<and> s = score_entry corpus qTokens (doc s) \<and>
      (\<exists>v. score s = Fin v \<and> 0.05 < v \<and> 0 \<le> v \<and> v \<le> 1)"
    using kept by blast
  have c: "length (retrieveRelevant corpus qTokens) \<le> 15"
    unfolding retrieveRelevant_def by simp
  show ?thesis
    using a b c score_entry_no_overlap by blast
qed

lemma rust_retrieval:
  "retrieveRelevant [rust_entry] [''rust''] = [\<lparr>doc = rust_entry, score = Fin (1 / 2)\<rparr>]"
  by (simp add: retrieveRelevant_def score_entry_def score_step_def token_idf_def df_or_one_def
      doc_frequency_def object_prototype_names_def rust_entry_def js_min_def js_gt_def
      array_sort_def Let_def)

theorem retrieveRelevant_sorted_bounded_witness:
  "retrieveRelevant [rust_entry] [''rust''] = [\<lparr>doc = rust_entry, score = Fin (1 / 2)\<rparr>] \<and>
   score (score_entry [rust_entry] [''java''] rust_entry) = Fin 0"
proof -
  have "set (tokens rust_entry) \<inter> set [''java''] = {}"
    by (simp add: rust_entry_def)
  then have "score (score_entry [rust_entry] [''java''] rust_entry) = Fin 0"
    using retrieveRelevant_sorted_bounded [of "[rust_entry]" "[''java'']"] by blast
  then show ?thesis
    using retrieveRelevant_sorted_bounded [of "[rust_entry]" "[''rust'']"]
    by (simp add: rust_retrieval)
qed

subsection \<open>Generator\<close>

lemma length_capitalize: "length (capitalize s) = length s"
  by (cases s) (simp_all add: capitalize_def)

lemma generate_loop_no_tables:
  "bigrams m = [] \<Longrightarrow> trigrams m = [] \<Longrightarrow>
   generate_loop m temp topp rnd n i prev cur out k = (out, k)"
  by (cases n) simp_all

lemma hi_words:
  "source_words ''hi'' = [''hi'']"
  "''hi'' \<notin> set object_prototype_names"
  by code_simp+

lemma hi_attempt_short:
  "length (fst (generate_attempt temp topp rnd k ''hi'' n)) < 10"
proof -
  let ?m = "\<lparr>bigrams = [], trigrams = [], starters = []\<rparr>"
  have "fst (generate_attempt temp topp rnd k ''hi'' n) = capitalize (fix_punctuation [] ''hi'')
      \<or> fst (generate_attempt temp topp rnd k ''hi'' n) = capitalize (fix_punctuation [] [])"
    by (simp add: generate_attempt_def hi_words generate_loop_no_tables Let_def join_string_def)
  moreover have "length (fix_punctuation [] ''hi'') = 2"
    by code_simp
  ultimately show ?thesis
    by (auto simp: length_capitalize)
qed

text \<open>
  C2. On the context \<open>hi\<close> every pass of \<open>generateNeuralText\<close> produces a text of at
  most two characters, the quality check rejects it and the function calls itself again:
  whatever the number of passes allowed, it has not returned. The retry is not bounded.
\<close>

theorem retry_is_unbounded:
  "generateNeuralText fuel recent temp topp rnd k ''hi'' n = Exhausted"
proof (induction fuel arbitrary: k)
  case 0
  show ?case by (simp add: hi_words)
next
  case (Suc fuel)
  have "\<not> validateOutput recent (fst (generate_attempt temp topp rnd k ''hi'' n))"
    using hi_attempt_short [of temp topp rnd k n] by (simp add: validateOutput_def)
  then show ?case
    using Suc.IH by (simp add: hi_words Let_def)
qed

lemma no_words_attempt:
  assumes "source_words ctx = []"
  shows "fst (generate_attempt temp topp rnd k ctx n) = []"
  using assms
  by (simp add: generate_attempt_def generate_loop_no_tables Let_def join_string_def capitalize_def)

text \<open>
  C8, as amended. If the context text contains no words, a pass of \<open>generateNeuralText\<close>
  produces the empty text, not the context text, and the quality check rejects it.
\<close>

theorem no_words_yields_empty_text:
  assumes "source_words ctx = []"
  shows "fst (generate_attempt temp topp rnd k ctx n) = [] \<and>
    \<not> validateOutput recent (fst (generate_attempt temp topp rnd k ctx n))"
  using no_words_attempt [OF assms] by (simp add: validateOutput_def)

lemma no_words_never_returns:
  assumes "source_words ctx = []"
  shows "generateNeuralText fuel recent temp topp rnd k ctx n = Exhausted"
proof (induction fuel arbitrary: k)
  case 0
  show ?case by (simp add: assms)
next
  case (Suc fuel)
  have "\<not> validateOutput recent (fst (generate_attempt temp topp rnd k ctx n))"
    using no_words_attempt [OF assms] by (simp add: validateOutput_def)
  then show ?case
    using Suc.IH assms by (simp add: Let_def)
qed

lemma space_words: "source_words '' '' = []"
  by code_simp

text \<open>
  C8, as stated, fails: on the context of one space, which contains no words,
  \<open>generateNeuralText\<close> does not return that context, whatever the number of passes.
\<close>

theorem blank_context_not_returned:
  "\<not> (\<exists>fuel. generateNeuralText fuel [] (Fin 0.8) (Fin 0.9) zero_draws 0 '' '' 50 = Returned '' '')"
  by (simp add: no_words_never_returns [OF space_words])

theorem no_words_yields_empty_text_witness:
  "source_words '' '' = [] \<and>
   fst (generate_attempt (Fin 0.8) (Fin 0.9) zero_draws 0 '' '' 50) = [] \<and>
   \<not> validateOutput [] (fst (generate_attempt (Fin 0.8) (Fin 0.9) zero_draws 0 '' '' 50))"
  using no_words_yields_empty_text [OF space_words, of "Fin 0.8" "Fin 0.9" zero_draws 0 50 "[]"]
  by (simp add: space_words validateOutput_def)

subsection \<open>Answer pipeline\<close>

lemma addToHistory_fields [simp]:
  "responseCache (addToHistory now st q r) = responseCache st"
  "wikiCache (addToHistory now st q r) = wikiCache st"
  "isReady (addToHistory now st q r) = isReady st"
  by (simp_all add: addToHistory_def Let_def)

lemma searchWikipedia_falsy:
  "\<not> truthy (fst (searchWikipedia fetch st query)) \<Longrightarrow> snd (searchWikipedia fetch st query) = st"
  by (auto simp: searchWikipedia_def Let_def truthy_def split: option.splits if_splits)

lemma finish_local_sources:
  "res_sources (fst (finish_local now st query key (d # ds) out)) \<noteq> []"
  by (simp add: finish_local_def Let_def)

lemma no_match_sources: "res_sources no_match_result = []"
  by (simp add: no_match_result_def)

lemma low_confidence_sources: "res_sources low_confidence_result = []"
  by (simp add: low_confidence_result_def)

lemma answer_locally_unchanged:
  assumes "answer_locally fuel rnd now st query key cq qt = Returned (r, st')"
    and "res_sources r = []"
  shows "st' = st"
proof (cases "retrieveRelevant (memory st) qt")
  case Nil
  with assms show ?thesis
    by (simp add: answer_locally_def)
next
  case (Cons d ds)
  have ne: "res_sources (fst (finish_local now st query key (d # ds) out)) \<noteq> []" for out
    by (rule finish_local_sources)
  from assms Cons show ?thesis
    using ne
    by (auto simp: answer_locally_def Let_def split: if_splits outcome.splits)
       (metis fst_conv)+
qed

lemma truthy_summary: "truthy (Some (x @ ''.''))"
  by (simp add: truthy_def)

lemma searchWikipedia_keeps:
  "responseCache (snd (searchWikipedia fetch st query)) = responseCache st"
  "conversationHistory (snd (searchWikipedia fetch st query)) = conversationHistory st"
  "recentOutputs (snd (searchWikipedia fetch st query)) = recentOutputs st"
  by (auto simp: searchWikipedia_def Let_def split: option.splits)

lemma answer_from_sources_unchanged:
  assumes "answer_from_sources fuel fetch rnd now st query key cq qt = Returned (r, st')"
    and "res_sources r = []"
  shows "st' = st"
proof (cases "truthy (fst (searchWikipedia fetch st query))")
  case True
  with assms show ?thesis
    by (auto simp: answer_from_sources_def Let_def)
next
  case False
  then have "snd (searchWikipedia fetch st query) = st"
    by (rule searchWikipedia_falsy)
  with assms False show ?thesis
    using answer_locally_unchanged by (simp add: answer_from_sources_def Let_def)
qed

text \<open>
  C10. When \<open>generateResponse\<close> returns the no-match result or the low-confidence
  result, the engine is exactly as it was before the call: the response cache, the
  conversation history, the recent-output window and every other field.
\<close>

theorem error_results_leave_state:
  assumes "generateResponse fuel fetch rnd now st query = Returned (r, st')"
    and "r = no_match_result \<or> r = low_confidence_result"
  shows "st' = st"
proof -
  have src: "res_sources r = []"
    using assms(2) no_match_sources low_confidence_sources by auto
  show ?thesis
  proof (cases "isReady st")
    case False
    with assms(1) show ?thesis
      by (simp add: generateResponse_def)
  next
    case ready: True
    show ?thesis
    proof (cases "map_of (responseCache st) (trim (toLowerCase query))")
      case (Some cached)
      with assms(1) ready show ?thesis
        by (simp add: generateResponse_def)
    next
      case None
      show ?thesis
      proof (cases "isMetaQuery query")
        case True
        with assms(1) ready None src show ?thesis
          by (auto simp: generateResponse_def Let_def core_identity_result_def
              split: list.splits if_splits)
      next
        case notmeta: False
        show ?thesis
        proof (cases "truthy (checkDictionaryInquiry (dictionary st) query)")
          case True
          with assms(1) ready None notmeta src show ?thesis
            by (auto simp: generateResponse_def Let_def)
        next
          case False
          with assms(1) ready None notmeta have
            "answer_from_sources fuel fetch rnd now st query (trim (toLowerCase query))
               (preprocessQuery query) (tokenize (preprocessQuery query)) = Returned (r, st')"
            by (simp add: generateResponse_def Let_def)
          then show ?thesis
            using src by (rule answer_from_sources_unchanged)
        qed
      qed
    qed
  qed
qed

lemma init_empty: "init (Some []) initial_engine = (True, empty_ready_engine)"
  by (simp add: init_def initial_engine_def empty_ready_engine_def)

lemma init_greek:
  "init (Some [QARecord ''alpha beta gamma delta epsilon zeta theta kappa'' ''Greek letters.''])
     initial_engine = (True, greek_engine)"
  unfolding init_def initial_engine_def greek_engine_def greek_entry_def load_item_def
  by code_simp

lemma moon_strings:
  "trim (toLowerCase ''moon'') = ''moon''"
  "preprocessQuery ''moon'' = ''moon''"
  "tokenize ''moon'' = [''moon'']"
  "isMetaQuery ''moon'' = False"
  "checkDictionaryInquiry \<lparr>own_entries = [], proto_item = None\<rparr> ''moon'' = None"
  "strip_question_prefix question_prefixes ''moon'' = ''moon''"
  by code_simp+

lemma moon_no_match:
  "generateResponse 1 no_fetch zero_draws 0 empty_ready_engine ''moon''
     = Returned (no_match_result, empty_ready_engine)"
  by (simp add: generateResponse_def answer_from_sources_def answer_locally_def
      searchWikipedia_def retrieveRelevant_def array_sort_def moon_strings
      empty_ready_engine_def initial_engine_def no_fetch_def truthy_def Let_def)

lemma alpha_strings:
  "trim (toLowerCase ''alpha'') = ''alpha''"
  "preprocessQuery ''alpha'' = ''alpha''"
  "tokenize ''alpha'' = [''alpha'']"
  "isMetaQuery ''alpha'' = False"
  "checkDictionaryInquiry \<lparr>own_entries = [], proto_item = None\<rparr> ''alpha'' = None"
  "strip_question_prefix question_prefixes ''alpha'' = ''alpha''"
  "list_ex (\<lambda>w. str_includes ''alpha'' w) long_form_words = False"
  "''alpha'' \<in> set object_prototype_names = False"
  by code_simp+

lemma alpha_retrieval:
  "retrieveRelevant [greek_entry] [''alpha''] = [\<lparr>doc = greek_entry, score = Fin (1 / 8)\<rparr>]"
  by (simp add: retrieveRelevant_def score_entry_def score_step_def token_idf_def df_or_one_def
      doc_frequency_def alpha_strings greek_entry_def js_min_def js_gt_def array_sort_def Let_def)

lemma alpha_low_confidence:
  "generateResponse 1 no_fetch zero_draws 0 greek_engine ''alpha''
     = Returned (low_confidence_result, greek_engine)"
  by (simp add: generateResponse_def answer_from_sources_def answer_locally_def
      searchWikipedia_def alpha_retrieval alpha_strings greek_engine_def
      initial_engine_def no_fetch_def truthy_def js_gt_def Let_def)

theorem error_results_leave_state_witness:
  "generateResponse 1 no_fetch zero_draws 0 empty_ready_engine ''moon''
     = Returned (no_match_result, empty_ready_engine) \<and>
   generateResponse 1 no_fetch zero_draws 0 greek_engine ''alpha''
     = Returned (low_confidence_result, greek_engine)"
  using error_results_leave_state [OF moon_no_match] error_results_leave_state [OF alpha_low_confidence]
    moon_no_match alpha_low_confidence
  by simp

subsection \<open>Initialisation\<close>




subsection \<open>Cache capacity\<close>

lemma addToHistory_bounded:
  "length (conversationHistory st) \<le> 10 \<Longrightarrow>
   length (conversationHistory (addToHistory now st q r)) \<le> 10"
  "length (recentOutputs st) \<le> 5 \<Longrightarrow> length (recentOutputs (addToHistory now st q r)) \<le> 5"
  by (simp_all add: addToHistory_def Let_def)

lemma length_map_set: "length (map_set m k v) \<le> Suc (length m)"
  by (simp add: map_set_def)

lemma length_map_delete_first: "m \<noteq> [] \<Longrightarrow> length (map_delete_first m) < length m"
  by (cases m) (simp_all add: map_delete_first_def map_delete_def less_Suc_eq_le)

lemma map_delete_first_distinct:
  "distinct (map fst (e # es)) \<Longrightarrow> map_delete_first (e # es) = es"
  by (auto simp: map_delete_first_def map_delete_def filter_id_conv rev_image_eqI)

lemma searchWikipedia_bounded:
  assumes "length (wikiCache st) \<le> 50"
  shows "length (wikiCache (snd (searchWikipedia fetch st query))) \<le> 50"
proof -
  have "length (map_delete_first (map_set (wikiCache st) query v)) \<le> 50"
    if "50 < length (map_set (wikiCache st) query v)" for v
  proof -
    have "map_set (wikiCache st) query v \<noteq> []"
      using that by auto
    then have "length (map_delete_first (map_set (wikiCache st) query v))
        < length (map_set (wikiCache st) query v)"
      by (rule length_map_delete_first)
    then show ?thesis
      using length_map_set [of "wikiCache st" query v] assms by linarith
  qed
  then show ?thesis
    using assms by (auto simp: searchWikipedia_def Let_def not_less split: option.splits)
qed

lemma finish_local_bounded:
  assumes "length (responseCache st) \<le> 100"
  shows "length (responseCache (snd (finish_local now st query key docs out))) \<le> 100"
proof -
  have "length (map_delete_first (map_set (responseCache st) key v)) \<le> 100"
    if "100 < length (map_set (responseCache st) key v)" for v
  proof -
    have "map_set (responseCache st) key v \<noteq> []"
      using that by auto
    then have "length (map_delete_first (map_set (responseCache st) key v))
        < length (map_set (responseCache st) key v)"
      by (rule length_map_delete_first)
    then show ?thesis
      using length_map_set [of "responseCache st" key v] assms by linarith
  qed
  then show ?thesis
    using assms by (auto simp: finish_local_def Let_def not_less)
qed

lemma many_queries_plain: "list_all plain_query many_queries"
  unfolding many_queries_def plain_query_def by code_simp

lemma many_queries_distinct: "distinct many_queries"
  unfolding many_queries_def by code_simp

lemma many_queries_length: "length many_queries = 101"
  unfolding many_queries_def by code_simp

lemma known_extract:
  "str_includes ''It is known'' ''refer to:'' = False"
  "str_join (take 3 (str_split ''It is known'' ''. '')) ''. '' @ ''.'' = ''It is known.''"
  by code_simp+

lemma truthy_values_map_set:
  "truthy_values m \<Longrightarrow> v \<noteq> [] \<Longrightarrow> truthy_values (map_set m k v)"
  by (auto simp: truthy_values_def map_set_def list_all_iff)

lemma truthy_values_delete_first:
  "truthy_values m \<Longrightarrow> truthy_values (map_delete_first m)"
  by (auto simp: truthy_values_def map_delete_first_def map_delete_def list_all_iff split: list.splits)

lemma known_lookup:
  assumes "truthy_values (wikiCache st)"
  shows "truthy (fst (searchWikipedia known_fetch st q))"
    and "truthy_values (wikiCache (snd (searchWikipedia known_fetch st q)))"
    and "isReady (snd (searchWikipedia known_fetch st q)) = isReady st"
    and "dictionary (snd (searchWikipedia known_fetch st q)) = dictionary st"
    and "responseCache (snd (searchWikipedia known_fetch st q)) = responseCache st"
proof -
  show "truthy (fst (searchWikipedia known_fetch st q))"
  proof (cases "map_of (wikiCache st) q")
    case None
    then show ?thesis
      by (simp add: searchWikipedia_def known_fetch_def known_extract truthy_def Let_def)
  next
    case (Some cached)
    then have "(q, cached) \<in> set (wikiCache st)"
      by (rule map_of_SomeD)
    then have "cached \<noteq> []"
      using assms by (auto simp: truthy_values_def list_all_iff)
    with Some show ?thesis
      by (simp add: searchWikipedia_def truthy_def)
  qed
  show "truthy_values (wikiCache (snd (searchWikipedia known_fetch st q)))"
    using assms
    by (auto simp: searchWikipedia_def known_fetch_def known_extract Let_def
        truthy_values_map_set truthy_values_delete_first split: option.splits)
  show "isReady (snd (searchWikipedia known_fetch st q)) = isReady st"
    and "dictionary (snd (searchWikipedia known_fetch st q)) = dictionary st"
    and "responseCache (snd (searchWikipedia known_fetch st q)) = responseCache st"
    by (auto simp: searchWikipedia_def Let_def split: option.splits)
qed

lemma addToHistory_keeps [simp]:
  "dictionary (addToHistory now st q r) = dictionary st"
  by (simp add: addToHistory_def Let_def)

lemma known_answer:
  assumes ready: "isReady st"
    and dict: "dictionary st = \<lparr>own_entries = [], proto_item = None\<rparr>"
    and plain: "plain_query q"
    and fresh: "q \<notin> fst ` set (responseCache st)"
    and vals: "truthy_values (wikiCache st)"
  shows "\<exists>r st'. generateResponse fuel known_fetch rnd now st q = Returned (r, st')
           \<and> isReady st' \<and> dictionary st' = dictionary st \<and> truthy_values (wikiCache st')
           \<and> responseCache st' = responseCache st @ [(q, r)]"
proof -
  have miss: "map_of (responseCache st) q = None"
    using fresh by (simp add: map_of_eq_None_iff)
  note k = known_lookup [OF vals, of q]
  have fresh': "q \<notin> set (map fst (responseCache st))"
    using fresh by simp
  show ?thesis
    using ready dict plain miss k fresh'
    by (simp add: generateResponse_def answer_from_sources_def plain_query_def Let_def map_set_def)
qed

lemma session_fills_cache:
  assumes "isReady st"
    and "dictionary st = \<lparr>own_entries = [], proto_item = None\<rparr>"
    and "list_all plain_query qs"
    and "distinct qs"
    and "set qs \<inter> fst ` set (responseCache st) = {}"
    and "truthy_values (wikiCache st)"
  shows "\<exists>st'. ask_all fuel known_fetch rnd now st qs = Returned st'
           \<and> length (responseCache st') = length (responseCache st) + length qs"
  using assms
proof (induction qs arbitrary: st)
  case Nil
  then show ?case by simp
next
  case (Cons q qs)
  have "q \<notin> fst ` set (responseCache st)"
    using Cons.prems(5) by auto
  then obtain r st1 where
    step: "generateResponse fuel known_fetch rnd now st q = Returned (r, st1)"
    and st1: "isReady st1" "dictionary st1 = dictionary st" "truthy_values (wikiCache st1)"
      "responseCache st1 = responseCache st @ [(q, r)]"
    using known_answer [OF Cons.prems(1) Cons.prems(2), of q fuel rnd now] Cons.prems(3,6)
    by auto
  have "set qs \<inter> fst ` set (responseCache st1) = {}"
    using Cons.prems(4,5) st1(4) by auto
  then obtain st' where
    "ask_all fuel known_fetch rnd now st1 qs = Returned st'"
    "length (responseCache st') = length (responseCache st1) + length qs"
    using Cons.IH [of st1] st1 Cons.prems(2,3,4) by auto
  then show ?case
    using step st1(4) by simp
qed

text \<open>
  C1. From the engine initialised on the empty payload, 101 distinct queries that the
  external lookup answers leave 101 entries in the response cache: the write on that path
  of \<open>generateResponse\<close> evicts nothing.
\<close>

theorem wiki_path_overflows_cache:
  "cache_size (ask_all 1 known_fetch zero_draws 0 (snd (init (Some []) initial_engine))
     many_queries) = 101"
proof -
  have e: "snd (init (Some []) initial_engine) = empty_ready_engine"
    by (simp add: init_empty)
  have "\<exists>st'. ask_all 1 known_fetch zero_draws 0 empty_ready_engine many_queries = Returned st'
           \<and> length (responseCache st') = length (responseCache empty_ready_engine) + length many_queries"
    by (rule session_fills_cache)
       (simp_all add: empty_ready_engine_def initial_engine_def many_queries_plain
          many_queries_distinct truthy_values_def)
  moreover have "length (responseCache empty_ready_engine) = 0"
    by (simp add: empty_ready_engine_def initial_engine_def)
  ultimately show ?thesis
    unfolding e by (auto simp: cache_size_def many_queries_length)
qed

end
